theory Spec2Isabelle
  imports Complex_Main
begin

section \<open>The upload and download manager of Aragorn (uploaderManager.ts)\<close>

text \<open>
  The class \<open>UploaderManager\<close> coordinates a batch upload through a backend uploader and a
  streamed download. Its two asynchronous methods, \<open>upload\<close> and \<open>download\<close>, are modelled
  as functions from the answers of the environment (the replies of the uploader in the order
  in which they arrive, the events of the streams) to the final state of the call, which holds
  the trace of every effect the method has on its collaborators. Console output is left out.
\<close>

subsection \<open>String literals\<close>

text \<open>
  The user-facing literals of the source are Chinese. A \<open>string\<close> is a list of bytes, so
  each literal is given by its UTF-8 encoding; the code points are listed beside it. The source
  compares strings for equality and emptiness only, which the encoding preserves.
\<close>

text \<open>title of every failure notification of upload (lines 121, 125, 136, 213) (U+4E0A U+4F20 U+64CD U+4F5C U+5F02 U+5E38).\<close>

definition title_upload_abnormal :: string where
  "title_upload_abnormal =
    [CHR 0xE4, CHR 0xB8, CHR 0x8A, CHR 0xE4, CHR 0xBC, CHR 0xA0, CHR 0xE6, CHR 0x93, CHR 0x8D,
     CHR 0xE4, CHR 0xBD, CHR 0x9C, CHR 0xE5, CHR 0xBC, CHR 0x82, CHR 0xE5, CHR 0xB8, CHR 0xB8]"

text \<open>body at line 121: the uploader profile does not exist (U+4E0A U+4F20 U+5668 U+914D U+7F6E U+4E0D U+5B58 U+5728).\<close>

definition body_profile_missing :: string where
  "body_profile_missing =
    [CHR 0xE4, CHR 0xB8, CHR 0x8A, CHR 0xE4, CHR 0xBC, CHR 0xA0, CHR 0xE5, CHR 0x99, CHR 0xA8,
     CHR 0xE9, CHR 0x85, CHR 0x8D, CHR 0xE7, CHR 0xBD, CHR 0xAE, CHR 0xE4, CHR 0xB8, CHR 0x8D,
     CHR 0xE5, CHR 0xAD, CHR 0x98, CHR 0xE5, CHR 0x9C, CHR 0xA8]"

text \<open>body at line 124: please configure the default uploader (U+8BF7 U+914D U+7F6E U+9ED8 U+8BA4 U+7684 U+4E0A U+4F20 U+5668).\<close>

definition body_configure_default :: string where
  "body_configure_default =
    [CHR 0xE8, CHR 0xAF, CHR 0xB7, CHR 0xE9, CHR 0x85, CHR 0x8D, CHR 0xE7, CHR 0xBD, CHR 0xAE,
     CHR 0xE9, CHR 0xBB, CHR 0x98, CHR 0xE8, CHR 0xAE, CHR 0xA4, CHR 0xE7, CHR 0x9A, CHR 0x84,
     CHR 0xE4, CHR 0xB8, CHR 0x8A, CHR 0xE4, CHR 0xBC, CHR 0xA0, CHR 0xE5, CHR 0x99, CHR 0xA8]"

text \<open>body at line 124: please add an uploader profile (U+8BF7 U+6DFB U+52A0 U+4E0A U+4F20 U+5668 U+914D U+7F6E).\<close>

definition body_add_profile :: string where
  "body_add_profile =
    [CHR 0xE8, CHR 0xAF, CHR 0xB7, CHR 0xE6, CHR 0xB7, CHR 0xBB, CHR 0xE5, CHR 0x8A, CHR 0xA0,
     CHR 0xE4, CHR 0xB8, CHR 0x8A, CHR 0xE4, CHR 0xBC, CHR 0xA0, CHR 0xE5, CHR 0x99, CHR 0xA8,
     CHR 0xE9, CHR 0x85, CHR 0x8D, CHR 0xE7, CHR 0xBD, CHR 0xAE]"

text \<open>line 135, before the uploader name (U+6CA1 U+6709 U+627E U+5230).\<close>

definition not_found_prefix :: string where
  "not_found_prefix =
    [CHR 0xE6, CHR 0xB2, CHR 0xA1, CHR 0xE6, CHR 0x9C, CHR 0x89, CHR 0xE6, CHR 0x89, CHR 0xBE,
     CHR 0xE5, CHR 0x88, CHR 0xB0]"

text \<open>line 135, after the uploader name (U+4E0A U+4F20 U+5668).\<close>

definition uploader_suffix :: string where
  "uploader_suffix =
    [CHR 0xE4, CHR 0xB8, CHR 0x8A, CHR 0xE4, CHR 0xBC, CHR 0xA0, CHR 0xE5, CHR 0x99, CHR 0xA8]"

text \<open>line 308 (U+6279 U+91CF U+4E0A U+4F20 U+6210 U+529F).\<close>

definition title_batch_success :: string where
  "title_batch_success =
    [CHR 0xE6, CHR 0x89, CHR 0xB9, CHR 0xE9, CHR 0x87, CHR 0x8F, CHR 0xE4, CHR 0xB8, CHR 0x8A,
     CHR 0xE4, CHR 0xBC, CHR 0xA0, CHR 0xE6, CHR 0x88, CHR 0x90, CHR 0xE5, CHR 0x8A, CHR 0x9F]"

text \<open>lines 308 and 311, before the count (U+603B U+5171).\<close>

definition total_prefix :: string where
  "total_prefix =
    [CHR 0xE6, CHR 0x80, CHR 0xBB, CHR 0xE5, CHR 0x85, CHR 0xB1]"

text \<open>lines 308 and 311, after the count (U+4E2A U+6587 U+4EF6).\<close>

definition files_suffix :: string where
  "files_suffix =
    [CHR 0xE4, CHR 0xB8, CHR 0xAA, CHR 0xE6, CHR 0x96, CHR 0x87, CHR 0xE4, CHR 0xBB, CHR 0xB6]"

text \<open>line 311 (U+6279 U+91CF U+4E0A U+4F20 U+5931 U+8D25).\<close>

definition title_batch_failed :: string where
  "title_batch_failed =
    [CHR 0xE6, CHR 0x89, CHR 0xB9, CHR 0xE9, CHR 0x87, CHR 0x8F, CHR 0xE4, CHR 0xB8, CHR 0x8A,
     CHR 0xE4, CHR 0xBC, CHR 0xA0, CHR 0xE5, CHR 0xA4, CHR 0xB1, CHR 0xE8, CHR 0xB4, CHR 0xA5]"

text \<open>line 315 (U+6279 U+91CF U+4E0A U+4F20 U+7ED3 U+675F).\<close>

definition title_batch_finished :: string where
  "title_batch_finished =
    [CHR 0xE6, CHR 0x89, CHR 0xB9, CHR 0xE9, CHR 0x87, CHR 0x8F, CHR 0xE4, CHR 0xB8, CHR 0x8A,
     CHR 0xE4, CHR 0xBC, CHR 0xA0, CHR 0xE7, CHR 0xBB, CHR 0x93, CHR 0xE6, CHR 0x9D, CHR 0x9F]"

text \<open>line 316, before the success count (U+6210 U+529F).\<close>

definition success_prefix :: string where
  "success_prefix =
    [CHR 0xE6, CHR 0x88, CHR 0x90, CHR 0xE5, CHR 0x8A, CHR 0x9F]"

text \<open>line 316, between the two counts (U+4E2A U+FF0C U+5931 U+8D25).\<close>

definition mixed_middle :: string where
  "mixed_middle =
    [CHR 0xE4, CHR 0xB8, CHR 0xAA, CHR 0xEF, CHR 0xBC, CHR 0x8C, CHR 0xE5, CHR 0xA4, CHR 0xB1,
     CHR 0xE8, CHR 0xB4, CHR 0xA5]"

text \<open>line 316, after the failure count (U+4E2A).\<close>

definition count_suffix :: string where
  "count_suffix =
    [CHR 0xE4, CHR 0xB8, CHR 0xAA]"

text \<open>lines 346 and 363 (U+4E0A U+4F20 U+6210 U+529F).\<close>

definition title_upload_success :: string where
  "title_upload_success =
    [CHR 0xE4, CHR 0xB8, CHR 0x8A, CHR 0xE4, CHR 0xBC, CHR 0xA0, CHR 0xE6, CHR 0x88, CHR 0x90,
     CHR 0xE5, CHR 0x8A, CHR 0x9F]"

text \<open>line 347 (U+94FE U+63A5 U+5DF2 U+81EA U+52A8 U+590D U+5236 U+5230 U+7C98 U+8D34 U+677F).\<close>

definition body_link_copied :: string where
  "body_link_copied =
    [CHR 0xE9, CHR 0x93, CHR 0xBE, CHR 0xE6, CHR 0x8E, CHR 0xA5, CHR 0xE5, CHR 0xB7, CHR 0xB2,
     CHR 0xE8, CHR 0x87, CHR 0xAA, CHR 0xE5, CHR 0x8A, CHR 0xA8, CHR 0xE5, CHR 0xA4, CHR 0x8D,
     CHR 0xE5, CHR 0x88, CHR 0xB6, CHR 0xE5, CHR 0x88, CHR 0xB0, CHR 0xE7, CHR 0xB2, CHR 0x98,
     CHR 0xE8, CHR 0xB4, CHR 0xB4, CHR 0xE6, CHR 0x9D, CHR 0xBF]"

text \<open>line 355 (U+7C98 U+8D34 U+677F U+5DF2 U+6062 U+590D).\<close>

definition title_clipboard_recovered :: string where
  "title_clipboard_recovered =
    [CHR 0xE7, CHR 0xB2, CHR 0x98, CHR 0xE8, CHR 0xB4, CHR 0xB4, CHR 0xE6, CHR 0x9D, CHR 0xBF,
     CHR 0xE5, CHR 0xB7, CHR 0xB2, CHR 0xE6, CHR 0x81, CHR 0xA2, CHR 0xE5, CHR 0xA4, CHR 0x8D]"

text \<open>line 356 (U+5DF2 U+81EA U+52A8 U+6062 U+590D U+4E0A U+6B21 U+7C98 U+8D34 U+677F U+4E2D U+7684 U+5185 U+5BB9).\<close>

definition body_clipboard_recovered :: string where
  "body_clipboard_recovered =
    [CHR 0xE5, CHR 0xB7, CHR 0xB2, CHR 0xE8, CHR 0x87, CHR 0xAA, CHR 0xE5, CHR 0x8A, CHR 0xA8,
     CHR 0xE6, CHR 0x81, CHR 0xA2, CHR 0xE5, CHR 0xA4, CHR 0x8D, CHR 0xE4, CHR 0xB8, CHR 0x8A,
     CHR 0xE6, CHR 0xAC, CHR 0xA1, CHR 0xE7, CHR 0xB2, CHR 0x98, CHR 0xE8, CHR 0xB4, CHR 0xB4,
     CHR 0xE6, CHR 0x9D, CHR 0xBF, CHR 0xE4, CHR 0xB8, CHR 0xAD, CHR 0xE7, CHR 0x9A, CHR 0x84,
     CHR 0xE5, CHR 0x86, CHR 0x85, CHR 0xE5, CHR 0xAE, CHR 0xB9]"

text \<open>line 370 (U+4E0A U+4F20 U+5931 U+8D25).\<close>

definition title_upload_failed :: string where
  "title_upload_failed =
    [CHR 0xE4, CHR 0xB8, CHR 0x8A, CHR 0xE4, CHR 0xBC, CHR 0xA0, CHR 0xE5, CHR 0xA4, CHR 0xB1,
     CHR 0xE8, CHR 0xB4, CHR 0xA5]"

text \<open>line 370, used when the failure has no message (U+9519 U+8BEF U+672A U+6355 U+83B7).\<close>

definition body_error_uncaught :: string where
  "body_error_uncaught =
    [CHR 0xE9, CHR 0x94, CHR 0x99, CHR 0xE8, CHR 0xAF, CHR 0xAF, CHR 0xE6, CHR 0x9C, CHR 0xAA,
     CHR 0xE6, CHR 0x8D, CHR 0x95, CHR 0xE8, CHR 0x8E, CHR 0xB7]"

text \<open>line 288, used when the error has no message (U+4E0B U+8F7D U+5931 U+8D25).\<close>

definition body_download_failed :: string where
  "body_download_failed =
    [CHR 0xE4, CHR 0xB8, CHR 0x8B, CHR 0xE8, CHR 0xBD, CHR 0xBD, CHR 0xE5, CHR 0xA4, CHR 0xB1,
     CHR 0xE8, CHR 0xB4, CHR 0xA5]"

text \<open>Decimal rendering of a count inside a template literal.\<close>

fun string_of_nat :: "nat \<Rightarrow> string" where
  "string_of_nat n =
     (if n < 10 then [char_of (48 + n)]
      else string_of_nat (n div 10) @ [char_of (48 + n mod 10)])"

declare string_of_nat.simps [simp del]

text \<open>An optional string inside a template literal: \<open>undefined\<close> is rendered by its name.\<close>

definition template :: "string option \<Rightarrow> string" where
  "template s = (case s of None \<Rightarrow> ''undefined'' | Some t \<Rightarrow> t)"

text \<open>\<open>a || b\<close> on optional strings: \<open>undefined\<close> and the empty string are falsy.\<close>

definition truthy :: "string option \<Rightarrow> bool" where
  "truthy a = (case a of None \<Rightarrow> False | Some s \<Rightarrow> s \<noteq> [])"

definition js_or :: "string option \<Rightarrow> string option \<Rightarrow> string option" where
  "js_or a b = (if truthy a then a else b)"

definition or_else :: "string option \<Rightarrow> string \<Rightarrow> string" where
  "or_else a d = (if truthy a then the a else d)"

subsection \<open>Data\<close>

text \<open>\<open>UploadedFileInfo\<close> (lines 16 to 31); the optional fields are options.\<close>

record UploadedFileInfo =
  id_f :: "string option"
  name_f :: "string option"
  url_f :: "string option"
  type_f :: string
  uploaderProfileId :: string
  path_f :: string
  size_f :: "nat option"
  date_f :: nat
  errorMessage :: "string option"

text \<open>\<open>FileFormData\<close> (lines 33 to 40); the buffer is a list of bytes.\<close>

record FileFormData =
  originalname :: string
  mimetype :: string
  encoding :: string
  buffer :: "nat list"
  size_fd :: nat
  fieldname :: string

text \<open>An element of \<open>files\<close>: \<open>string | FileFormData\<close>.\<close>

datatype file_input = PathFile string | FormFile FileFormData

text \<open>
  \<open>UploaderProfile\<close> is declared in uploaderProfileManager.ts; \<open>upload\<close> reads its
  fields \<open>id\<close>, \<open>uploaderName\<close> and \<open>uploaderOptions\<close> (opaque here).
\<close>

record UploaderProfile =
  id_p :: string
  uploaderName :: string
  uploaderOptions :: string

text \<open>\<open>UploadOptions\<close> (lines 42 to 49); an absent flag is \<open>False\<close>.\<close>

record UploadOptions =
  files :: "file_input list"
  customUploaderProfileId :: "string option"
  directoryPath :: "string option"
  isFromFileManage :: bool
  testProfile :: "UploaderProfile option"
  isTest :: bool

text \<open>The fields of \<open>this.setting.configuration\<close> that the class reads.\<close>

record configuration =
  defaultUploaderProfileId :: "string option"
  proxy :: "string option"
  rename :: bool
  renameFormat :: string
  urlType :: string
  autoCopy :: bool
  autoRecover :: bool
  showNotifaction :: bool
  sound :: bool

text \<open>
  An uploader of aragorn-core, as far as \<open>upload\<close> looks at it: its
  \<open>batchUploadMode\<close>. Its method \<open>upload\<close> answers asynchronously; the answers are
  part of the schedule below.
\<close>

record uploader =
  batchUploadMode :: string

text \<open>The argument of \<open>uploader.upload\<close> (lines 168 to 173).\<close>

datatype file_payload = FilePath string | FileBuffer "nat list"

record upload_args =
  file_a :: file_payload
  fileName_a :: string
  directoryPath_a :: "string option"
  isFromFileManage_a :: bool

text \<open>
  The \<open>data\<close> of a successful answer is spread over the base information (line 175): the
  fields it carries replace those of the base information.
\<close>

record upload_data =
  name_d :: "string option"
  url_d :: "string option"
  size_d :: "nat option"

text \<open>The answer of the uploader: \<open>{success: true, data}\<close> or \<open>{success: false, desc}\<close>.\<close>

datatype upload_response = UploadSuccess upload_data | UploadFail "string option"

text \<open>
  A thrown value: an \<open>Error\<close> object with its message, or \<open>null\<close>/\<open>undefined\<close>,
  on which reading \<open>.message\<close> raises a TypeError.
\<close>

datatype js_thrown = JsError string | JsNullish

text \<open>How the promise returned by \<open>uploader.upload\<close> settles.\<close>

datatype adapter_reply = Resolves upload_response | Rejects js_thrown

text \<open>
  The collaborators of the class that are not part of the file: functions of aragorn-core,
  mime-types, uuid, the clock, the profile manager, the history, the window and the clipboard.
  \<open>uuidv4\<close> and \<open>getTime\<close> are indexed by the task for which they are called.
  \<open>typeErrorMessage\<close> is the engine's message for reading a property of \<open>undefined\<close>.
\<close>

record collaborators =
  getFileNameByFormat :: "string \<Rightarrow> bool \<Rightarrow> string \<Rightarrow> string"
  mime_lookup :: "string \<Rightarrow> string option"
  uuidv4 :: "nat \<Rightarrow> string"
  getTime :: "nat \<Rightarrow> nat"
  getAll :: "UploaderProfile list"
  getUploaderByName :: "string \<Rightarrow> uploader option"
  history_add :: "UploadedFileInfo list \<Rightarrow> UploadedFileInfo list"
  win_isDestroyed :: bool
  clipboard_readText :: string
  typeErrorMessage :: string

subsection \<open>Effects\<close>

record notification =
  title :: string
  body :: string
  silent :: bool

text \<open>The ratio of a download: \<open>curLength / totalLength\<close> in JavaScript's arithmetic, where
  division by zero gives \<open>Infinity\<close> or \<open>NaN\<close>. \<open>Ratio q\<close> stands for the double nearest
  to the quotient \<open>q\<close>.\<close>

datatype js_ratio = Ratio rat | Infinity | NaN

text \<open>Messages sent with \<open>Ipc.sendMessage\<close>, by channel.\<close>

datatype ipc_message =
    FileUploadReply
  | UploaderProfileTestReply bool
  | UploadedFilesGetReply "UploadedFileInfo list"
  | FileDownloadProgress string js_ratio string
  | FileDownloadReply "string option"

text \<open>What the callback given to \<open>setTimeout\<close> at line 352 does when it runs.\<close>

datatype deferred = DeferredClipboardWrite string | DeferredNotificationShow notification

text \<open>
  The trace of a call. \<open>Prepare i\<close> marks lines 149 to 162 for task \<open>i\<close>,
  \<open>TransferStart i\<close> the call of \<open>uploader.upload\<close> at line 168, \<open>PushSuccess i\<close> and
  \<open>PushFail i\<close> lines 175 and 177.
\<close>

datatype event =
    ChangeOptions string "string option"
  | Prepare nat UploadedFileInfo
  | TransferStart nat upload_args
  | PushSuccess nat UploadedFileInfo
  | PushFail nat UploadedFileInfo
  | HistoryAdd "UploadedFileInfo list"
  | IpcSend ipc_message
  | NotificationShow notification
  | ClipboardReadText
  | ClipboardWriteText string
  | SetTimeout nat "deferred list"

subsection \<open>Profile and uploader resolution (lines 107 to 139)\<close>

text \<open>Lines 109 to 115: the profile of the request.\<close>

definition select_profile ::
    "collaborators \<Rightarrow> configuration \<Rightarrow> UploadOptions \<Rightarrow> UploaderProfile option" where
  "select_profile c cfg opts =
     (if isTest opts then testProfile opts
      else find (\<lambda>uploaderProfile.
             Some (id_p uploaderProfile) =
               js_or (customUploaderProfileId opts) (defaultUploaderProfileId cfg))
           (getAll c))"

text \<open>Lines 118 to 127: the notification shown when no profile was selected.\<close>

definition no_profile_notification :: "collaborators \<Rightarrow> UploadOptions \<Rightarrow> notification" where
  "no_profile_notification c opts =
     (if truthy (customUploaderProfileId opts)
      then \<lparr>title = title_upload_abnormal, body = body_profile_missing, silent = False\<rparr>
      else \<lparr>title = title_upload_abnormal,
             body = (if length (getAll c) > 0 then body_configure_default else body_add_profile),
             silent = False\<rparr>)"

text \<open>Lines 134 to 137: the notification shown when the profile names no known uploader.\<close>

definition no_uploader_notification :: "UploaderProfile \<Rightarrow> notification" where
  "no_uploader_notification p =
     \<lparr>title = title_upload_abnormal,
      body = not_found_prefix @ uploaderName p @ uploader_suffix, silent = False\<rparr>"

subsection \<open>The handlers of a finished batch (lines 306 to 380)\<close>

definition handleBatchUploaded :: "nat \<Rightarrow> nat \<Rightarrow> event list" where
  "handleBatchUploaded successFilesCount failFilesCount =
     (if failFilesCount = 0 then
        [NotificationShow \<lparr>title = title_batch_success,
           body = total_prefix @ string_of_nat successFilesCount @ files_suffix, silent = False\<rparr>]
      else if successFilesCount = 0 then
        [NotificationShow \<lparr>title = title_batch_failed,
           body = total_prefix @ string_of_nat failFilesCount @ files_suffix, silent = False\<rparr>]
      else
        [NotificationShow \<lparr>title = title_batch_finished,
           body = success_prefix @ string_of_nat successFilesCount @ mixed_middle
                  @ string_of_nat failFilesCount @ count_suffix, silent = False\<rparr>])"

text \<open>
  \<open>handleSingleUploaded\<close> receives \<open>successRes[0]\<close> and \<open>failRes[0]\<close>, each of which is
  \<open>undefined\<close> when its list is empty. With both undefined, line 370 reads
  \<open>failFile.errorMessage\<close> of \<open>undefined\<close> and raises a TypeError (\<open>Inl\<close>).
\<close>

definition handleSingleUploaded ::
    "collaborators \<Rightarrow> configuration \<Rightarrow> UploadedFileInfo option \<Rightarrow> UploadedFileInfo option
       \<Rightarrow> js_thrown + event list" where
  "handleSingleUploaded c cfg successFile failFile =
     (case successFile of
        Some sf \<Rightarrow>
          (let clipboardUrl =
                 (if urlType cfg = ''URL'' then Some (url_f sf)
                  else if urlType cfg = ''HTML'' then
                    Some (Some (''<img src=\"'' @ template (url_f sf) @ ''\" />''))
                  else if urlType cfg = ''Markdown'' then
                    Some (Some (''!['' @ template (url_f sf) @ ''](''
                                @ template (url_f sf) @ '')''))
                  else None)
           in case clipboardUrl of
                None \<Rightarrow> Inr []
              | Some cu \<Rightarrow>
                  if autoCopy cfg then
                    (let preClipBoardText =
                           (if autoRecover cfg then clipboard_readText c else [])
                     in Inr ((if autoRecover cfg then [ClipboardReadText] else [])
                          @ [ClipboardWriteText (or_else cu [])]
                          @ (if showNotifaction cfg then
                               [NotificationShow \<lparr>title = title_upload_success,
                                  body = body_link_copied, silent = \<not> sound cfg\<rparr>]
                             else [])
                          @ (if autoRecover cfg then
                               [SetTimeout 5000
                                  [DeferredClipboardWrite preClipBoardText,
                                   DeferredNotificationShow
                                     \<lparr>title = title_clipboard_recovered,
                                      body = body_clipboard_recovered,
                                      silent = \<not> sound cfg\<rparr>]]
                             else [])))
                  else
                    Inr (if showNotifaction cfg then
                           [NotificationShow \<lparr>title = title_upload_success,
                              body = or_else cu [], silent = \<not> sound cfg\<rparr>]
                         else []))
      | None \<Rightarrow>
          (case failFile of
             None \<Rightarrow> Inl (JsError (typeErrorMessage c))
           | Some ff \<Rightarrow>
               Inr [NotificationShow \<lparr>title = title_upload_failed,
                      body = or_else (errorMessage ff) body_error_uncaught,
                      silent = False\<rparr>]))"

definition handleAddHistory :: "collaborators \<Rightarrow> UploadedFileInfo list \<Rightarrow> event list" where
  "handleAddHistory c uploadedData =
     HistoryAdd uploadedData
     # (if \<not> win_isDestroyed c then [IpcSend (UploadedFilesGetReply (history_add c uploadedData))]
        else [])"

subsection \<open>The tasks of a batch (lines 143 to 187)\<close>

text \<open>
  Each call of the asynchronous function \<open>toUpload\<close> is a task. A task is suspended at
  line 165 (\<open>AwaitPrev\<close>: it awaits the promise of the task before it) or at line 168
  (\<open>InFlight\<close>: it awaits the answer of the uploader); its promise is then fulfilled, or
  rejected with the value that was thrown inside it.
\<close>

datatype task_status = AwaitPrev | InFlight | Fulfilled | Rejected js_thrown

record task =
  file_t :: file_input
  fileName_t :: string
  baseInfo_t :: UploadedFileInfo
  status :: task_status

text \<open>How the call of \<open>upload\<close> ended; \<open>Pending\<close> while it is suspended at line 187.\<close>

datatype upload_result =
    Pending
  | ReturnedFalse
  | ReturnedSuccessRes "UploadedFileInfo list"
  | ReturnedUndefined
  | UploadRejected

record upload_state =
  tasks :: "task list"
  successRes :: "UploadedFileInfo list"
  failRes :: "UploadedFileInfo list"
  trace :: "event list"
  returned :: upload_result

text \<open>The variables that \<open>toUpload\<close> and the rest of \<open>upload\<close> close over.\<close>

record closure =
  env_k :: collaborators
  cfg_k :: configuration
  opts_k :: UploadOptions
  profile_k :: UploaderProfile
  uploader_k :: uploader

text \<open>Lines 149 to 162.\<close>

definition fileName_of :: "closure \<Rightarrow> file_input \<Rightarrow> string" where
  "fileName_of k file =
     getFileNameByFormat (env_k k)
       (case file of PathFile p \<Rightarrow> p | FormFile fd \<Rightarrow> originalname fd)
       (rename (cfg_k k)) (renameFormat (cfg_k k))"

definition fileType_of :: "closure \<Rightarrow> file_input \<Rightarrow> string" where
  "fileType_of k file =
     (case file of
        PathFile p \<Rightarrow> or_else (mime_lookup (env_k k) p) ''-''
      | FormFile fd \<Rightarrow> mimetype fd)"

definition baseInfo_of :: "closure \<Rightarrow> file_input \<Rightarrow> nat \<Rightarrow> UploadedFileInfo" where
  "baseInfo_of k file index =
     \<lparr>id_f = Some (uuidv4 (env_k k) index),
      name_f = Some (fileName_of k file),
      url_f = None,
      type_f = fileType_of k file,
      uploaderProfileId = or_else (Some (id_p (profile_k k))) [],
      path_f = (case file of PathFile p \<Rightarrow> p | FormFile fd \<Rightarrow> []),
      size_f = None,
      date_f = getTime (env_k k) index,
      errorMessage = None\<rparr>"

text \<open>Lines 168 to 173: the argument handed to the uploader.\<close>

definition args_of :: "closure \<Rightarrow> task \<Rightarrow> upload_args" where
  "args_of k t =
     \<lparr>file_a = (case file_t t of PathFile p \<Rightarrow> FilePath p | FormFile fd \<Rightarrow> FileBuffer (buffer fd)),
      fileName_a = fileName_t t,
      directoryPath_a = directoryPath (opts_k k),
      isFromFileManage_a = isFromFileManage (opts_k k)\<rparr>"

text \<open>Line 175: \<open>{...baseInfo, ...res.data}\<close>; line 177: \<open>{...baseInfo, errorMessage: res.desc}\<close>.\<close>

definition spread_data :: "UploadedFileInfo \<Rightarrow> upload_data \<Rightarrow> UploadedFileInfo" where
  "spread_data b d =
     b\<lparr>name_f := (case name_d d of None \<Rightarrow> name_f b | Some n \<Rightarrow> Some n),
       url_f := (case url_d d of None \<Rightarrow> url_f b | Some u \<Rightarrow> Some u),
       size_f := (case size_d d of None \<Rightarrow> size_f b | Some z \<Rightarrow> Some z)\<rparr>"

definition spread_error :: "UploadedFileInfo \<Rightarrow> string option \<Rightarrow> UploadedFileInfo" where
  "spread_error b desc = b\<lparr>errorMessage := desc\<rparr>"

definition set_status :: "nat \<Rightarrow> task_status \<Rightarrow> upload_state \<Rightarrow> upload_state" where
  "set_status index s st = st\<lparr>tasks := (tasks st)[index := (tasks st ! index)\<lparr>status := s\<rparr>]\<rparr>"

definition emit :: "event list \<Rightarrow> upload_state \<Rightarrow> upload_state" where
  "emit evs st = st\<lparr>trace := trace st @ evs\<rparr>"

text \<open>Line 168, up to the suspension: task \<open>index\<close> calls the uploader.\<close>

definition toUpload_transfer :: "closure \<Rightarrow> nat \<Rightarrow> upload_state \<Rightarrow> upload_state" where
  "toUpload_transfer k index st =
     set_status index InFlight (emit [TransferStart index (args_of k (tasks st ! index))] st)"

text \<open>The condition of line 164, under which a task first awaits the task before it.\<close>

definition gated :: "closure \<Rightarrow> nat \<Rightarrow> bool" where
  "gated k index = (batchUploadMode (uploader_k k) = ''Sequence'' \<and> index > 0)"

text \<open>
  Lines 149 to 168, up to the first suspension: the synchronous part of the call
  \<open>toUpload(file, index, uploadQuence)\<close>, which adds the task to the batch.
\<close>

definition toUpload_start :: "closure \<Rightarrow> file_input \<Rightarrow> nat \<Rightarrow> upload_state \<Rightarrow> upload_state" where
  "toUpload_start k file index st =
     (let t = \<lparr>file_t = file, fileName_t = fileName_of k file,
                baseInfo_t = baseInfo_of k file index, status = AwaitPrev\<rparr>;
          st1 = emit [Prepare index (baseInfo_t t)] (st\<lparr>tasks := tasks st @ [t]\<rparr>)
      in if gated k index then st1 else toUpload_transfer k index st1)"

text \<open>Lines 181 to 185: \<open>files.map\<close> calls \<open>toUpload\<close> for each file in turn.\<close>

fun map_files :: "closure \<Rightarrow> file_input list \<Rightarrow> nat \<Rightarrow> upload_state \<Rightarrow> upload_state" where
  "map_files k [] index st = st"
| "map_files k (file # rest) index st = map_files k rest (Suc index) (toUpload_start k file index st)"

text \<open>Lines 174 to 178: the answer of the uploader has arrived; the task's promise is fulfilled.\<close>

definition toUpload_result :: "nat \<Rightarrow> upload_response \<Rightarrow> upload_state \<Rightarrow> upload_state" where
  "toUpload_result index res st =
     (let b = baseInfo_t (tasks st ! index) in
      case res of
        UploadSuccess d \<Rightarrow>
          set_status index Fulfilled
            (emit [PushSuccess index (spread_data b d)]
               (st\<lparr>successRes := successRes st @ [spread_data b d]\<rparr>))
      | UploadFail desc \<Rightarrow>
          set_status index Fulfilled
            (emit [PushFail index (spread_error b desc)]
               (st\<lparr>failRes := failRes st @ [spread_error b desc]\<rparr>)))"

text \<open>
  Line 165 resumes: the task that awaits the promise of task \<open>index\<close> is task
  \<open>index + 1\<close>, if it is suspended there.
\<close>

definition resume_waiter :: "closure \<Rightarrow> nat \<Rightarrow> upload_state \<Rightarrow> upload_state" where
  "resume_waiter k index st =
     (if Suc index < length (tasks st) \<and> status (tasks st ! Suc index) = AwaitPrev
      then toUpload_transfer k (Suc index) st else st)"

text \<open>
  The uploader threw: nothing inside \<open>toUpload\<close> catches, so the promise of the task is
  rejected. A task that awaits a rejected promise at line 165 is rejected with the same value,
  and so is the task that awaits that one.
\<close>

fun reject_waiters :: "js_thrown \<Rightarrow> task list \<Rightarrow> task list" where
  "reject_waiters err [] = []"
| "reject_waiters err (t # ts) =
     (if status t = AwaitPrev then t\<lparr>status := Rejected err\<rparr> # reject_waiters err ts
      else t # ts)"

definition toUpload_throw :: "nat \<Rightarrow> js_thrown \<Rightarrow> upload_state \<Rightarrow> upload_state" where
  "toUpload_throw index err st =
     st\<lparr>tasks := take index (tasks st) @ [(tasks st ! index)\<lparr>status := Rejected err\<rparr>]
                  @ reject_waiters err (drop (Suc index) (tasks st))\<rparr>"

subsection \<open>The end of the call (lines 187 to 215)\<close>

text \<open>Lines 208 to 215: the \<open>catch\<close> block of \<open>upload\<close>.\<close>

definition upload_catch :: "closure \<Rightarrow> js_thrown \<Rightarrow> upload_state \<Rightarrow> upload_state" where
  "upload_catch k err st =
     (case err of
        JsNullish \<Rightarrow> st\<lparr>returned := UploadRejected\<rparr>
      | JsError message \<Rightarrow>
          (emit ((if isTest (opts_k k) then [IpcSend (UploaderProfileTestReply False)] else [])
                 @ [NotificationShow \<lparr>title = title_upload_abnormal, body = message,
                                      silent = False\<rparr>]) st)
          \<lparr>returned := ReturnedUndefined\<rparr>)"

text \<open>\<open>xs[0]\<close>: \<open>undefined\<close> for the empty list.\<close>

definition first :: "'a list \<Rightarrow> 'a option" where
  "first xs = (case xs of [] \<Rightarrow> None | x # _ \<Rightarrow> Some x)"

text \<open>Lines 189 to 207: what follows \<open>await Promise.all(promises)\<close>.\<close>

definition upload_finish :: "closure \<Rightarrow> upload_state \<Rightarrow> upload_state" where
  "upload_finish k st =
     (let st1 = emit (handleAddHistory (env_k k) (failRes st @ successRes st)
                      @ (if isFromFileManage (opts_k k) then [IpcSend FileUploadReply] else [])
                      @ (if isTest (opts_k k)
                         then [IpcSend (UploaderProfileTestReply (length (successRes st) > 0))]
                         else [])) st
      in if length (files (opts_k k)) > 1 then
           (emit (handleBatchUploaded (length (successRes st)) (length (failRes st))) st1)
           \<lparr>returned := ReturnedSuccessRes (successRes st)\<rparr>
         else
           (case handleSingleUploaded (env_k k) (cfg_k k)
                   (first (successRes st)) (first (failRes st)) of
              Inl err \<Rightarrow> upload_catch k err st1
            | Inr evs \<Rightarrow> (emit evs st1)\<lparr>returned := ReturnedSuccessRes (successRes st)\<rparr>))"

text \<open>
  \<open>Promise.all\<close> is fulfilled once every task is, and rejected as soon as one task is; the
  call of \<open>upload\<close> resumes from line 187 once, on the first of the two.
\<close>

definition all_fulfilled :: "upload_state \<Rightarrow> bool" where
  "all_fulfilled st = list_all (\<lambda>t. status t = Fulfilled) (tasks st)"

definition promise_all_then :: "closure \<Rightarrow> upload_state \<Rightarrow> upload_state" where
  "promise_all_then k st =
     (if returned st = Pending \<and> all_fulfilled st then upload_finish k st else st)"

definition promise_all_catch :: "closure \<Rightarrow> js_thrown \<Rightarrow> upload_state \<Rightarrow> upload_state" where
  "promise_all_catch k err st =
     (if returned st = Pending then upload_catch k err st else st)"

text \<open>
  One step of the environment: the promise that the uploader returned for task \<open>index\<close>
  settles. Only a task in flight has such a promise.
\<close>

definition settle :: "closure \<Rightarrow> upload_state \<Rightarrow> nat \<times> adapter_reply \<Rightarrow> upload_state" where
  "settle k st ev =
     (case ev of (index, reply) \<Rightarrow>
        if index < length (tasks st) \<and> status (tasks st ! index) = InFlight then
          (case reply of
             Resolves res \<Rightarrow>
               promise_all_then k (resume_waiter k index (toUpload_result index res st))
           | Rejects err \<Rightarrow> promise_all_catch k err (toUpload_throw index err st))
        else st)"

text \<open>The state in which the tasks are created: line 141 has configured the uploader.\<close>

definition initial :: "closure \<Rightarrow> upload_state" where
  "initial k =
     \<lparr>tasks = [], successRes = [], failRes = [],
      trace = [ChangeOptions (uploaderOptions (profile_k k)) (proxy (cfg_k k))],
      returned = Pending\<rparr>"

text \<open>Lines 181 to 187: the state in which \<open>upload\<close> is first suspended.\<close>

definition dispatched :: "closure \<Rightarrow> upload_state" where
  "dispatched k = promise_all_then k (map_files k (files (opts_k k)) 0 (initial k))"

definition stopped :: "notification \<Rightarrow> upload_state" where
  "stopped n =
     \<lparr>tasks = [], successRes = [], failRes = [], trace = [NotificationShow n],
      returned = ReturnedFalse\<rparr>"

text \<open>
  The method \<open>upload\<close>. The schedule lists, in the order in which they happen, the
  settlements of the promises that the uploader returned.
\<close>

definition upload ::
    "collaborators \<Rightarrow> configuration \<Rightarrow> UploadOptions \<Rightarrow> (nat \<times> adapter_reply) list
       \<Rightarrow> upload_state" where
  "upload c cfg opts schedule =
     (case select_profile c cfg opts of
        None \<Rightarrow> stopped (no_profile_notification c opts)
      | Some p \<Rightarrow>
          (case getUploaderByName c (uploaderName p) of
             None \<Rightarrow> stopped (no_uploader_notification p)
           | Some u \<Rightarrow>
               (let k = \<lparr>env_k = c, cfg_k = cfg, opts_k = opts, profile_k = p,
                          uploader_k = u\<rparr>
                in foldl (settle k) (dispatched k) schedule)))"

subsection \<open>The method \<open>download\<close> (lines 251 to 290)\<close>

text \<open>
  \<open>axios.get\<close> answers with a response, of which the method reads the
  \<open>content-length\<close> header (absent, or the number it denotes), or it rejects.
\<close>

datatype axios_result = AxiosResponse "nat option" | AxiosRejected js_thrown

text \<open>
  The events of the two streams for which the method registers a handler: a chunk of the
  response (with its length), and \<open>error\<close> (with the message of the error) and \<open>close\<close>
  of the writer.
\<close>

datatype stream_event = Data nat | WriterError string | WriterClose

datatype promise_state = Unsettled | Resolved | RejectedWith js_thrown

datatype download_result = DownloadPending | DownloadReturned | DownloadRejected

record download_state =
  curLength :: nat
  error_w :: "string option"
  closed_w :: bool
  promise_d :: promise_state
  sent :: "ipc_message list"
  result_d :: download_result

text \<open>Line 265: the division of two numbers in JavaScript.\<close>

definition js_div :: "nat \<Rightarrow> nat \<Rightarrow> js_ratio" where
  "js_div a b =
     (if b = 0 then (if a = 0 then NaN else Infinity) else Ratio (of_nat a / of_nat b))"

text \<open>Lines 286 to 289: the \<open>catch\<close> block.\<close>

definition download_catch :: "js_thrown \<Rightarrow> download_state \<Rightarrow> download_state" where
  "download_catch err st =
     (case err of
        JsNullish \<Rightarrow> st\<lparr>result_d := DownloadRejected\<rparr>
      | JsError message \<Rightarrow>
          st\<lparr>sent := sent st @ [FileDownloadReply (Some (or_else (Some message) body_download_failed))],
             result_d := DownloadReturned\<rparr>)"

text \<open>\<open>reject\<close> and \<open>resolve\<close> of the promise of line 255, which settles once.\<close>

definition reject :: "js_thrown \<Rightarrow> download_state \<Rightarrow> download_state" where
  "reject err st =
     (if promise_d st = Unsettled then download_catch err (st\<lparr>promise_d := RejectedWith err\<rparr>)
      else st)"

definition resolve :: "download_state \<Rightarrow> download_state" where
  "resolve st =
     (if promise_d st = Unsettled then st\<lparr>promise_d := Resolved, result_d := DownloadReturned\<rparr>
      else st)"

text \<open>
  The three handlers (lines 263 to 282). A closed writer emits nothing more; the response
  keeps emitting chunks as long as it has some.
\<close>

definition on_event :: "string \<Rightarrow> nat option \<Rightarrow> download_state \<Rightarrow> stream_event \<Rightarrow> download_state" where
  "on_event name totalLength st ev =
     (case ev of
        Data chunk_length \<Rightarrow>
          (let cur = curLength st + chunk_length in
           st\<lparr>curLength := cur,
              sent := sent st @
                (case totalLength of
                   None \<Rightarrow> []
                 | Some len \<Rightarrow> [FileDownloadProgress name (js_div cur len) name])\<rparr>)
      | WriterError message \<Rightarrow>
          (if closed_w st then st else reject (JsError message) (st\<lparr>error_w := Some message\<rparr>))
      | WriterClose \<Rightarrow>
          (if closed_w st then st
           else if error_w st = None then
             resolve (st\<lparr>closed_w := True,
                         sent := sent st @
                           (if totalLength = None then [FileDownloadReply None] else [])\<rparr>)
           else st\<lparr>closed_w := True\<rparr>))"

definition download_initial :: download_state where
  "download_initial =
     \<lparr>curLength = 0, error_w = None, closed_w = False, promise_d = Unsettled, sent = [],
      result_d = DownloadPending\<rparr>"

definition download ::
    "(string \<Rightarrow> string option \<Rightarrow> axios_result) \<Rightarrow> configuration \<Rightarrow> string \<Rightarrow> string
       \<Rightarrow> stream_event list \<Rightarrow> download_state" where
  "download axios_get cfg name url events =
     (case axios_get url (proxy cfg) of
        AxiosRejected err \<Rightarrow> reject err download_initial
      | AxiosResponse totalLength \<Rightarrow> foldl (on_event name totalLength) download_initial events)"

subsection \<open>Reading a trace\<close>

fun push_index :: "event \<Rightarrow> nat option" where
  "push_index (PushSuccess i _) = Some i"
| "push_index (PushFail i _) = Some i"
| "push_index _ = None"

fun start_index :: "event \<Rightarrow> nat option" where
  "start_index (TransferStart i _) = Some i"
| "start_index _ = None"

fun prepare_index :: "event \<Rightarrow> nat option" where
  "prepare_index (Prepare i _) = Some i"
| "prepare_index _ = None"

fun is_history :: "event \<Rightarrow> bool" where
  "is_history (HistoryAdd _) = True"
| "is_history _ = False"

fun is_notification :: "event \<Rightarrow> bool" where
  "is_notification (NotificationShow _) = True"
| "is_notification _ = False"

text \<open>The indices of the tasks that pushed an outcome, started a transfer, were prepared, in
  the order of the trace.\<close>

definition push_indices :: "event list \<Rightarrow> nat list" where
  "push_indices tr = List.map_filter push_index tr"

definition start_indices :: "event list \<Rightarrow> nat list" where
  "start_indices tr = List.map_filter start_index tr"

definition prepare_indices :: "event list \<Rightarrow> nat list" where
  "prepare_indices tr = List.map_filter prepare_index tr"

definition is_push :: "nat \<Rightarrow> event \<Rightarrow> bool" where
  "is_push i e = (push_index e = Some i)"

definition is_start :: "nat \<Rightarrow> event \<Rightarrow> bool" where
  "is_start i e = (start_index e = Some i)"

definition is_prepare :: "nat \<Rightarrow> event \<Rightarrow> bool" where
  "is_prepare i e = (prepare_index e = Some i)"

definition any_push :: "event \<Rightarrow> bool" where
  "any_push e = (push_index e \<noteq> None)"

definition any_start :: "event \<Rightarrow> bool" where
  "any_start e = (start_index e \<noteq> None)"

definition not_history :: "event \<Rightarrow> bool" where
  "not_history e = (\<not> is_history e)"

text \<open>The base information with which a task was prepared.\<close>

fun prepared_info :: "event \<Rightarrow> UploadedFileInfo option" where
  "prepared_info (Prepare _ b) = Some b"
| "prepared_info _ = None"

text \<open>\<open>precedes P Q tr\<close>: every event of \<open>tr\<close> that satisfies \<open>Q\<close> comes after one that
  satisfies \<open>P\<close>.\<close>

fun precedes :: "('a \<Rightarrow> bool) \<Rightarrow> ('a \<Rightarrow> bool) \<Rightarrow> 'a list \<Rightarrow> bool" where
  "precedes P Q [] = True"
| "precedes P Q (x # xs) = (\<not> Q x \<and> (P x \<or> precedes P Q xs))"

fun is_progress :: "ipc_message \<Rightarrow> bool" where
  "is_progress (FileDownloadProgress _ _ _) = True"
| "is_progress _ = False"


text \<open>The lengths of the chunks among the events, and the bytes received after each chunk.\<close>

fun chunk_lengths :: "stream_event list \<Rightarrow> nat list" where
  "chunk_lengths [] = []"
| "chunk_lengths (Data n # evs) = n # chunk_lengths evs"
| "chunk_lengths (_ # evs) = chunk_lengths evs"

fun received :: "nat \<Rightarrow> nat list \<Rightarrow> nat list" where
  "received cur [] = []"
| "received cur (n # ns) = (cur + n) # received (cur + n) ns"

fun is_rejected :: "task_status \<Rightarrow> bool" where
  "is_rejected (Rejected _) = True"
| "is_rejected _ = False"

text \<open>The records that the trace shows as pushed to \<open>successRes\<close> and to \<open>failRes\<close>.\<close>

fun success_info :: "event \<Rightarrow> UploadedFileInfo option" where
  "success_info (PushSuccess _ b) = Some b"
| "success_info _ = None"

fun fail_info :: "event \<Rightarrow> UploadedFileInfo option" where
  "fail_info (PushFail _ b) = Some b"
| "fail_info _ = None"

definition success_infos :: "event list \<Rightarrow> UploadedFileInfo list" where
  "success_infos tr = List.map_filter success_info tr"

definition fail_infos :: "event list \<Rightarrow> UploadedFileInfo list" where
  "fail_infos tr = List.map_filter fail_info tr"

text \<open>
  The events of lines 189 to 203 that follow the call of \<open>history.add\<close>, with those of the
  \<open>catch\<close> block when line 202 throws, given the two lists of outcomes.
\<close>

definition finish_rest ::
    "closure \<Rightarrow> UploadedFileInfo list \<Rightarrow> UploadedFileInfo list \<Rightarrow> event list" where
  "finish_rest k succ fails =
     (if win_isDestroyed (env_k k) then []
      else [IpcSend (UploadedFilesGetReply (history_add (env_k k) (fails @ succ)))])
     @ (if isFromFileManage (opts_k k) then [IpcSend FileUploadReply] else [])
     @ (if isTest (opts_k k) then [IpcSend (UploaderProfileTestReply (length succ > 0))] else [])
     @ (if length (files (opts_k k)) > 1 then handleBatchUploaded (length succ) (length fails)
        else (case handleSingleUploaded (env_k k) (cfg_k k) (first succ) (first fails) of
                Inr evs \<Rightarrow> evs
              | Inl err \<Rightarrow>
                  (if isTest (opts_k k) then [IpcSend (UploaderProfileTestReply False)] else [])
                  @ [NotificationShow \<lparr>title = title_upload_abnormal,
                       body = typeErrorMessage (env_k k), silent = False\<rparr>]))"

subsection \<open>Invariants\<close>


subsection \<open>Example requests\<close>

text \<open>A small installation with one profile and one uploader, used to run the methods.\<close>

definition profile_ex :: UploaderProfile where
  "profile_ex = \<lparr>id_p = ''p1'', uploaderName = ''u1'', uploaderOptions = ''o1''\<rparr>"

definition profile_test_ex :: UploaderProfile where
  "profile_test_ex = \<lparr>id_p = ''t'', uploaderName = ''u1'', uploaderOptions = ''o2''\<rparr>"

definition env_ex :: "string \<Rightarrow> collaborators" where
  "env_ex mode =
     \<lparr>getFileNameByFormat = (\<lambda>name r format. name),
      mime_lookup = (\<lambda>p. if p = ''a.png'' then Some ''image/png'' else None),
      uuidv4 = string_of_nat,
      getTime = (\<lambda>index. 1000 + index),
      getAll = [profile_ex],
      getUploaderByName = (\<lambda>name. if name = ''u1'' then Some \<lparr>batchUploadMode = mode\<rparr> else None),
      history_add = (\<lambda>uploadedData. uploadedData),
      win_isDestroyed = False,
      clipboard_readText = ''old'',
      typeErrorMessage = ''Cannot read property errorMessage of undefined''\<rparr>"

definition cfg_ex :: configuration where
  "cfg_ex =
     \<lparr>defaultUploaderProfileId = Some ''p1'', proxy = None, rename = False, renameFormat = [],
      urlType = ''URL'', autoCopy = False, autoRecover = False, showNotifaction = True,
      sound = True\<rparr>"

definition opts_ex :: "file_input list \<Rightarrow> UploadOptions" where
  "opts_ex fs =
     \<lparr>files = fs, customUploaderProfileId = None, directoryPath = None,
      isFromFileManage = False, testProfile = None, isTest = False\<rparr>"

definition ok_ex :: adapter_reply where
  "ok_ex = Resolves (UploadSuccess \<lparr>name_d = None, url_d = Some ''http://x'', size_d = None\<rparr>)"

definition fail_ex :: adapter_reply where
  "fail_ex = Resolves (UploadFail (Some ''denied''))"

definition fault_ex :: adapter_reply where
  "fault_ex = Rejects (JsError ''boom'')"

lemmas ex_defs =
  profile_ex_def profile_test_ex_def env_ex_def cfg_ex_def opts_ex_def ok_ex_def fail_ex_def
  fault_ex_def

section \<open>Properties\<close>

subsection \<open>Auxiliary facts\<close>

lemma upload_resolved:
  assumes "select_profile c cfg opts = Some p"
      and "getUploaderByName c (uploaderName p) = Some u"
  shows "upload c cfg opts schedule =
           foldl (settle \<lparr>env_k = c, cfg_k = cfg, opts_k = opts, profile_k = p, uploader_k = u\<rparr>)
             (dispatched \<lparr>env_k = c, cfg_k = cfg, opts_k = opts, profile_k = p, uploader_k = u\<rparr>)
             schedule"
  using assms by (simp add: upload_def Let_def)

lemma foldl_settle_no_tasks: "tasks st = [] \<Longrightarrow> foldl (settle k) st schedule = st"
  by (induction schedule) (auto simp: settle_def)

lemma literals_distinct:
  "body_profile_missing \<noteq> body_configure_default" "body_profile_missing \<noteq> body_add_profile"
  by (simp_all add: body_profile_missing_def body_configure_default_def body_add_profile_def)

lemma dispatched_no_files:
  "files (opts_k k) = [] \<Longrightarrow> dispatched k = upload_finish k (initial k)"
  by (simp add: dispatched_def promise_all_then_def initial_def all_fulfilled_def)

subsection \<open>Profile selection\<close>

text \<open>
  C6, as the specification states it, fails: a test profile that is supplied without the flag
  \<open>isTest\<close> is not chosen. Here the request carries the test profile \<open>profile_test_ex\<close>, and
  the profile with the default id is selected.
\<close>

theorem test_profile_without_flag_ignored:
  "testProfile ((opts_ex [])\<lparr>testProfile := Some profile_test_ex\<rparr>) = Some profile_test_ex \<and>
   select_profile (env_ex ''Parallel'') cfg_ex ((opts_ex [])\<lparr>testProfile := Some profile_test_ex\<rparr>)
     = Some profile_ex \<and>
   profile_ex \<noteq> profile_test_ex"
  by (simp add: ex_defs select_profile_def js_or_def truthy_def)

text \<open>
  C6, amended: the flag \<open>isTest\<close> decides. When it is set, the test profile of the request
  (which may be absent) is chosen whatever the explicit and the default id are. Otherwise the
  first known profile is chosen whose id is the explicit id, when the request has a non-empty
  one, and the default id of the configuration if it has none.
\<close>

theorem select_profile_by_test_flag:
  "(isTest opts \<longrightarrow> select_profile c cfg opts = testProfile opts) \<and>
   (\<not> isTest opts \<and> truthy (customUploaderProfileId opts) \<longrightarrow>
      select_profile c cfg opts =
        find (\<lambda>p. Some (id_p p) = customUploaderProfileId opts) (getAll c)) \<and>
   (\<not> isTest opts \<and> \<not> truthy (customUploaderProfileId opts) \<longrightarrow>
      select_profile c cfg opts =
        find (\<lambda>p. Some (id_p p) = defaultUploaderProfileId cfg) (getAll c))"
  by (simp add: select_profile_def js_or_def)

text \<open>
  C6, amended, on three requests: a test request that also names the profile \<open>p1\<close>; a
  request that names \<open>p1\<close>; a request without an explicit id under a default id that no
  profile has.
\<close>

theorem select_profile_by_test_flag_witness:
  "select_profile (env_ex ''Parallel'') cfg_ex
      ((opts_ex [])\<lparr>testProfile := Some profile_test_ex, isTest := True,
                    customUploaderProfileId := Some ''p1''\<rparr>) = Some profile_test_ex \<and>
   select_profile (env_ex ''Parallel'') cfg_ex
      ((opts_ex [])\<lparr>customUploaderProfileId := Some ''p1''\<rparr>) = Some profile_ex \<and>
   select_profile (env_ex ''Parallel'') (cfg_ex\<lparr>defaultUploaderProfileId := Some ''zz''\<rparr>)
      (opts_ex []) = None"
  using
    select_profile_by_test_flag
      [of "(opts_ex [])\<lparr>testProfile := Some profile_test_ex, isTest := True,
                         customUploaderProfileId := Some ''p1''\<rparr>" "env_ex ''Parallel''" cfg_ex]
    select_profile_by_test_flag
      [of "(opts_ex [])\<lparr>customUploaderProfileId := Some ''p1''\<rparr>" "env_ex ''Parallel''" cfg_ex]
    select_profile_by_test_flag
      [of "opts_ex []" "env_ex ''Parallel''" "cfg_ex\<lparr>defaultUploaderProfileId := Some ''zz''\<rparr>"]
  by (simp add: ex_defs truthy_def)

subsection \<open>Requests that cannot be resolved\<close>

text \<open>
  C7: when no profile is selected, or the selected profile names an uploader that is not
  registered, the call returns \<open>false\<close> (it does not throw), creates no task, prepares and
  starts nothing, writes no history, and shows exactly one notification. Its body tells an
  explicit id that was not found from a missing default, and both from a missing uploader.
\<close>

theorem unresolved_request_stops:
  assumes "select_profile c cfg opts = None \<or>
           (\<exists>p. select_profile c cfg opts = Some p \<and> getUploaderByName c (uploaderName p) = None)"
  shows "returned (upload c cfg opts schedule) = ReturnedFalse \<and>
         tasks (upload c cfg opts schedule) = [] \<and>
         prepare_indices (trace (upload c cfg opts schedule)) = [] \<and>
         start_indices (trace (upload c cfg opts schedule)) = [] \<and>
         filter is_history (trace (upload c cfg opts schedule)) = [] \<and>
         trace (upload c cfg opts schedule) =
           [NotificationShow
              \<lparr>title = title_upload_abnormal,
               body = (case select_profile c cfg opts of
                         None \<Rightarrow> if truthy (customUploaderProfileId opts) then body_profile_missing
                                 else if length (getAll c) > 0 then body_configure_default
                                 else body_add_profile
                       | Some p \<Rightarrow> not_found_prefix @ uploaderName p @ uploader_suffix),
               silent = False\<rparr>] \<and>
         body_profile_missing \<noteq> body_configure_default \<and>
         body_profile_missing \<noteq> body_add_profile"
  using assms
  by (auto simp: upload_def stopped_def no_profile_notification_def no_uploader_notification_def
        prepare_indices_def start_indices_def List.map_filter_simps literals_distinct)

text \<open>
  C7 on three requests for one file: an explicit id that no profile has, no explicit id under
  a default id that no profile has, and a test profile that names an unknown uploader.
\<close>

theorem unresolved_request_stops_witness:
  "upload (env_ex ''Parallel'') cfg_ex
      ((opts_ex [PathFile ''a.png''])\<lparr>customUploaderProfileId := Some ''zz''\<rparr>) [(0, ok_ex)]
     = stopped \<lparr>title = title_upload_abnormal, body = body_profile_missing, silent = False\<rparr> \<and>
   upload (env_ex ''Parallel'') (cfg_ex\<lparr>defaultUploaderProfileId := None\<rparr>)
      (opts_ex [PathFile ''a.png'']) [(0, ok_ex)]
     = stopped \<lparr>title = title_upload_abnormal, body = body_configure_default, silent = False\<rparr> \<and>
   upload (env_ex ''Parallel'') cfg_ex
      ((opts_ex [PathFile ''a.png''])
         \<lparr>testProfile := Some (profile_test_ex\<lparr>uploaderName := ''u2''\<rparr>), isTest := True\<rparr>)
      [(0, ok_ex)]
     = stopped \<lparr>title = title_upload_abnormal,
                body = not_found_prefix @ ''u2'' @ uploader_suffix, silent = False\<rparr>"
  using
    unresolved_request_stops
      [of "env_ex ''Parallel''" cfg_ex
          "(opts_ex [PathFile ''a.png''])\<lparr>customUploaderProfileId := Some ''zz''\<rparr>" "[(0, ok_ex)]"]
    unresolved_request_stops
      [of "env_ex ''Parallel''" "cfg_ex\<lparr>defaultUploaderProfileId := None\<rparr>"
          "opts_ex [PathFile ''a.png'']" "[(0, ok_ex)]"]
    unresolved_request_stops
      [of "env_ex ''Parallel''" cfg_ex
          "(opts_ex [PathFile ''a.png''])
             \<lparr>testProfile := Some (profile_test_ex\<lparr>uploaderName := ''u2''\<rparr>), isTest := True\<rparr>"
          "[(0, ok_ex)]"]
  by (simp add: ex_defs select_profile_def js_or_def truthy_def upload_def stopped_def
        no_profile_notification_def no_uploader_notification_def)

subsection \<open>The empty batch\<close>

text \<open>
  C10: a request without files whose profile and uploader resolve writes the history once, with
  no record, and then calls \<open>handleSingleUploaded\<close> with two missing records; reading the
  error message of the missing failure raises, so the call ends in its \<open>catch\<close> block: it
  shows the notification of an abnormal upload and returns \<open>undefined\<close>, not the list of
  successes.
\<close>

theorem empty_batch_ends_in_catch:
  assumes "select_profile c cfg opts = Some p"
      and "getUploaderByName c (uploaderName p) = Some u"
      and "files opts = []"
  shows "trace (upload c cfg opts schedule) =
           [ChangeOptions (uploaderOptions p) (proxy cfg), HistoryAdd []]
           @ (if win_isDestroyed c then [] else [IpcSend (UploadedFilesGetReply (history_add c []))])
           @ (if isFromFileManage opts then [IpcSend FileUploadReply] else [])
           @ (if isTest opts then [IpcSend (UploaderProfileTestReply False),
                                   IpcSend (UploaderProfileTestReply False)] else [])
           @ [NotificationShow \<lparr>title = title_upload_abnormal, body = typeErrorMessage c,
                                silent = False\<rparr>] \<and>
         returned (upload c cfg opts schedule) = ReturnedUndefined \<and>
         successRes (upload c cfg opts schedule) = [] \<and>
         failRes (upload c cfg opts schedule) = [] \<and>
         handleSingleUploaded c cfg (first (successRes (upload c cfg opts schedule)))
             (first (failRes (upload c cfg opts schedule))) = Inl (JsError (typeErrorMessage c))"
proof -
  define k where "k = \<lparr>env_k = c, cfg_k = cfg, opts_k = opts, profile_k = p, uploader_k = u\<rparr>"
  have single: "handleSingleUploaded c cfg None None = Inl (JsError (typeErrorMessage c))"
    by (simp add: handleSingleUploaded_def)
  have fin: "upload_finish k (initial k) =
      \<lparr>tasks = [], successRes = [], failRes = [],
       trace = [ChangeOptions (uploaderOptions p) (proxy cfg), HistoryAdd []]
           @ (if win_isDestroyed c then [] else [IpcSend (UploadedFilesGetReply (history_add c []))])
           @ (if isFromFileManage opts then [IpcSend FileUploadReply] else [])
           @ (if isTest opts then [IpcSend (UploaderProfileTestReply False),
                                   IpcSend (UploaderProfileTestReply False)] else [])
           @ [NotificationShow \<lparr>title = title_upload_abnormal, body = typeErrorMessage c,
                                silent = False\<rparr>],
       returned = ReturnedUndefined\<rparr>"
    using assms(3)
    by (simp add: upload_finish_def initial_def k_def emit_def handleAddHistory_def first_def
          single upload_catch_def)
  have "upload c cfg opts schedule = foldl (settle k) (dispatched k) schedule"
    using assms(1,2) by (simp add: upload_resolved k_def)
  also have "dispatched k = upload_finish k (initial k)"
    using assms(3) by (simp add: dispatched_no_files k_def)
  finally have "upload c cfg opts schedule = upload_finish k (initial k)"
    by (simp add: foldl_settle_no_tasks fin)
  then show ?thesis
    by (simp add: fin first_def single)
qed

text \<open>C10 on the example installation: the request without files, in test mode.\<close>

theorem empty_batch_ends_in_catch_witness:
  "trace (upload (env_ex ''Parallel'') cfg_ex ((opts_ex [])\<lparr>isTest := True,
       testProfile := Some profile_test_ex\<rparr>) [(0, ok_ex)]) =
     [ChangeOptions ''o2'' None, HistoryAdd [], IpcSend (UploadedFilesGetReply []),
      IpcSend (UploaderProfileTestReply False), IpcSend (UploaderProfileTestReply False),
      NotificationShow \<lparr>title = title_upload_abnormal,
         body = ''Cannot read property errorMessage of undefined'', silent = False\<rparr>] \<and>
   returned (upload (env_ex ''Parallel'') cfg_ex ((opts_ex [])\<lparr>isTest := True,
       testProfile := Some profile_test_ex\<rparr>) [(0, ok_ex)]) = ReturnedUndefined"
  using empty_batch_ends_in_catch
    [of "env_ex ''Parallel''" cfg_ex
        "(opts_ex [])\<lparr>isTest := True, testProfile := Some profile_test_ex\<rparr>"
        profile_test_ex "\<lparr>batchUploadMode = ''Parallel''\<rparr>" "[(0, ok_ex)]"]
  by (simp add: ex_defs select_profile_def)

subsection \<open>Downloads\<close>

lemma on_event_curLength:
  "curLength (on_event name totalLength st ev) =
     (case ev of Data n \<Rightarrow> curLength st + n | _ \<Rightarrow> curLength st)"
  by (cases ev; cases "promise_d st")
     (auto simp: on_event_def reject_def resolve_def download_catch_def Let_def
           split: js_thrown.splits)

lemma on_event_progress:
  "filter is_progress (sent (on_event name (Some len) st ev)) =
     filter is_progress (sent st)
     @ (case ev of Data n \<Rightarrow> [FileDownloadProgress name (js_div (curLength st + n) len) name]
        | _ \<Rightarrow> [])"
  by (cases ev; cases "promise_d st")
     (auto simp: on_event_def reject_def resolve_def download_catch_def Let_def)

lemma foldl_on_event_progress:
  "filter is_progress (sent (foldl (on_event name (Some len)) st events)) =
     filter is_progress (sent st)
     @ map (\<lambda>cur. FileDownloadProgress name (js_div cur len) name)
         (received (curLength st) (chunk_lengths events))"
proof (induction events arbitrary: st)
  case Nil
  then show ?case by simp
next
  case (Cons ev events)
  then show ?case
    by (cases ev) (simp_all add: on_event_progress on_event_curLength)
qed

lemma on_event_no_done:
  "FileDownloadReply None \<notin> set (sent st) \<Longrightarrow>
   FileDownloadReply None \<notin> set (sent (on_event name (Some len) st ev))"
  by (cases ev) (auto simp: on_event_def reject_def resolve_def download_catch_def Let_def)

lemma foldl_on_event_no_done:
  "FileDownloadReply None \<notin> set (sent st) \<Longrightarrow>
   FileDownloadReply None \<notin> set (sent (foldl (on_event name (Some len)) st events))"
  by (induction events arbitrary: st) (simp_all add: on_event_no_done)

text \<open>
  C8: when the response declares its length, every chunk is followed by one progress message
  whose ratio is the number of bytes received so far divided by the declared length (for a
  positive length, their quotient), and the message without payload that reports the end of a
  download is never sent.
\<close>

theorem known_size_progress:
  assumes "axios_get url (proxy cfg) = AxiosResponse (Some len)"
  shows "filter is_progress (sent (download axios_get cfg name url events)) =
           map (\<lambda>cur. FileDownloadProgress name (js_div cur len) name)
             (received 0 (chunk_lengths events)) \<and>
         (0 < len \<longrightarrow>
            map (\<lambda>cur. js_div cur len) (received 0 (chunk_lengths events)) =
            map (\<lambda>cur. Ratio (of_nat cur / of_nat len)) (received 0 (chunk_lengths events))) \<and>
         FileDownloadReply None \<notin> set (sent (download axios_get cfg name url events))"
  using assms
  by (simp add: download_def foldl_on_event_progress foldl_on_event_no_done download_initial_def
        js_div_def)

text \<open>
  C8 on the download of 1000 bytes in four chunks of 250: the messages sent are the four
  progress messages with the ratios 1/4, 1/2, 3/4 and 1, and nothing else.
\<close>

theorem known_size_progress_witness:
  "sent (download (\<lambda>url proxy. AxiosResponse (Some 1000)) cfg_ex ''f.bin'' ''http://x/f.bin''
           [Data 250, Data 250, Data 250, Data 250, WriterClose]) =
     [FileDownloadProgress ''f.bin'' (Ratio (1 / 4)) ''f.bin'',
      FileDownloadProgress ''f.bin'' (Ratio (1 / 2)) ''f.bin'',
      FileDownloadProgress ''f.bin'' (Ratio (3 / 4)) ''f.bin'',
      FileDownloadProgress ''f.bin'' (Ratio 1) ''f.bin''] \<and>
   result_d (download (\<lambda>url proxy. AxiosResponse (Some 1000)) cfg_ex ''f.bin'' ''http://x/f.bin''
           [Data 250, Data 250, Data 250, Data 250, WriterClose]) = DownloadReturned"
  using known_size_progress [of "\<lambda>url proxy. AxiosResponse (Some 1000)" "''http://x/f.bin''" cfg_ex 1000
      "''f.bin''" "[Data 250, Data 250, Data 250, Data 250, WriterClose]"]
  by (simp add: download_def download_initial_def on_event_def js_div_def resolve_def Let_def)














end
